theory Spec2Isabelle
  imports Main "HOL-Library.Sublist" "HOL-Library.Product_Lexorder"
    "HOL-Library.Code_Target_Nat"
begin

section \<open>Python strings\<close>

text \<open>
  A Python \<open>str\<close> is a sequence of Unicode code points, so a string is a list of
  natural numbers (\<open>len\<close> counts code points, and the dashes U+2013 and U+2014 of the
  source are one element each).  ASCII literals are written \<open>u ''abc''\<close>; other code
  points are spliced in as numbers (233 is e-acute, 8211 the en dash).

  The character tables below (\<open>isspace\<close>, \<open>\d\<close>, \<open>\w\<close>, the case mappings) are
  those of CPython 3 on U+0000..U+017F (Basic Latin, Latin-1 Supplement, Latin
  Extended-A), which covers the alphabets the source names in its patterns.  The
  whitespace table is complete.  A code point above U+017F is taken to be an uncased
  symbol that is neither a digit nor alphanumeric.
\<close>

type_synonym pystr = "nat list"

definition u :: "string \<Rightarrow> pystr" where
  "u s = map of_char s"

definition is_space :: "nat \<Rightarrow> bool" where
  "is_space c \<longleftrightarrow>
     (if c < 128 then (9 \<le> c \<and> c \<le> 13) \<or> (28 \<le> c \<and> c \<le> 32)
      else c = 133 \<or> c = 160 \<or> c = 5760 \<or> (8192 \<le> c \<and> c \<le> 8202) \<or> c = 8232
           \<or> c = 8233 \<or> c = 8239 \<or> c = 8287 \<or> c = 12288)"

definition is_decimal :: "nat \<Rightarrow> bool" where
  "is_decimal c \<longleftrightarrow> 48 \<le> c \<and> c \<le> 57"

definition is_alnum :: "nat \<Rightarrow> bool" where
  "is_alnum c \<longleftrightarrow>
     (if c < 128 then (48 \<le> c \<and> c \<le> 57) \<or> (65 \<le> c \<and> c \<le> 90) \<or> (97 \<le> c \<and> c \<le> 122)
      else c = 170 \<or> c = 178 \<or> c = 179 \<or> c = 181 \<or> c = 185 \<or> c = 186
           \<or> (188 \<le> c \<and> c \<le> 190) \<or> (192 \<le> c \<and> c \<le> 214) \<or> (216 \<le> c \<and> c \<le> 246)
           \<or> (248 \<le> c \<and> c \<le> 383))"

text \<open>\<open>\w\<close> of the \<open>re\<close> module on \<open>str\<close> patterns: alphanumeric or underscore.\<close>

definition is_word :: "nat \<Rightarrow> bool" where
  "is_word c \<longleftrightarrow> is_alnum c \<or> c = 95"

definition is_upper :: "nat \<Rightarrow> bool" where
  "is_upper c \<longleftrightarrow>
     (if c < 128 then 65 \<le> c \<and> c \<le> 90
      else (192 \<le> c \<and> c \<le> 214) \<or> (216 \<le> c \<and> c \<le> 222)
           \<or> (256 \<le> c \<and> c \<le> 310 \<and> even c) \<or> (313 \<le> c \<and> c \<le> 327 \<and> odd c)
           \<or> (330 \<le> c \<and> c \<le> 374 \<and> even c) \<or> c = 376
           \<or> (377 \<le> c \<and> c \<le> 381 \<and> odd c))"

definition is_lower :: "nat \<Rightarrow> bool" where
  "is_lower c \<longleftrightarrow>
     (if c < 128 then 97 \<le> c \<and> c \<le> 122
      else c = 170 \<or> c = 181 \<or> c = 186 \<or> (223 \<le> c \<and> c \<le> 246) \<or> (248 \<le> c \<and> c \<le> 255)
           \<or> (257 \<le> c \<and> c \<le> 311 \<and> odd c) \<or> c = 312 \<or> (314 \<le> c \<and> c \<le> 328 \<and> even c)
           \<or> c = 329 \<or> (331 \<le> c \<and> c \<le> 375 \<and> odd c) \<or> (378 \<le> c \<and> c \<le> 382 \<and> even c)
           \<or> c = 383)"

definition is_cased :: "nat \<Rightarrow> bool" where
  "is_cased c \<longleftrightarrow> is_upper c \<or> is_lower c"

text \<open>\<open>str.lower\<close> of one code point (U+0130 lowers to two code points).\<close>

definition lower_cp :: "nat \<Rightarrow> pystr" where
  "lower_cp c =
     (if c < 128 then (if 65 \<le> c \<and> c \<le> 90 then [c + 32] else [c])
      else if c = 304 then [105, 775]
      else if c = 376 then [255]
      else if (192 \<le> c \<and> c \<le> 214) \<or> (216 \<le> c \<and> c \<le> 222) then [c + 32]
      else if is_upper c then [c + 1]
      else [c])"

text \<open>The title-case mapping of one code point, used by \<open>title\<close> and \<open>capitalize\<close>.\<close>

definition title_cp :: "nat \<Rightarrow> pystr" where
  "title_cp c =
     (if c < 128 then (if 97 \<le> c \<and> c \<le> 122 then [c - 32] else [c])
      else if c = 181 then [924]
      else if c = 223 then [83, 115]
      else if c = 255 then [376]
      else if c = 305 then [73]
      else if c = 329 then [700, 78]
      else if c = 383 then [83]
      else if (224 \<le> c \<and> c \<le> 246) \<or> (248 \<le> c \<and> c \<le> 254) then [c - 32]
      else if c = 170 \<or> c = 186 \<or> c = 312 then [c]
      else if is_lower c then [c - 1]
      else [c])"

definition lower :: "pystr \<Rightarrow> pystr" where
  "lower s = concat (map lower_cp s)"

text \<open>\<open>s.isupper()\<close>: at least one cased character, and no lower-case one.\<close>

definition isupper :: "pystr \<Rightarrow> bool" where
  "isupper s \<longleftrightarrow> list_ex is_upper s \<and> \<not> list_ex is_lower s"

fun title_go :: "bool \<Rightarrow> pystr \<Rightarrow> pystr" where
  "title_go prev_cased [] = []"
| "title_go prev_cased (c # cs) =
     (if prev_cased then lower_cp c else title_cp c) @ title_go (is_cased c) cs"

definition title :: "pystr \<Rightarrow> pystr" where
  "title s = title_go False s"

definition capitalize :: "pystr \<Rightarrow> pystr" where
  "capitalize s = (case s of [] \<Rightarrow> [] | c # cs \<Rightarrow> title_cp c @ lower cs)"

definition strip :: "pystr \<Rightarrow> pystr" where
  "strip s = dropWhile is_space (rev (dropWhile is_space (rev s)))"

text \<open>\<open>s.split(sep)\<close> for a one-character separator: empty pieces are kept.\<close>

fun split_on :: "nat \<Rightarrow> pystr \<Rightarrow> pystr list" where
  "split_on sep [] = [[]]"
| "split_on sep (c # cs) =
     (if c = sep then [] # split_on sep cs
      else (case split_on sep cs of [] \<Rightarrow> [[c]] | l # ls \<Rightarrow> (c # l) # ls))"

text \<open>\<open>s.split(sep, 1)\<close> for a one-character separator: cut at its first occurrence.\<close>

definition split_once :: "nat \<Rightarrow> pystr \<Rightarrow> pystr list" where
  "split_once sep s =
     (if sep \<in> set s then [takeWhile (\<lambda>c. c \<noteq> sep) s, tl (dropWhile (\<lambda>c. c \<noteq> sep) s)]
      else [s])"

text \<open>\<open>s.split()\<close>: the maximal runs of non-whitespace characters.\<close>

fun split_ws :: "pystr \<Rightarrow> pystr list" where
  "split_ws [] = []"
| "split_ws (c # cs) =
     (if is_space c then split_ws cs
      else (case cs of
              [] \<Rightarrow> [[c]]
            | d # _ \<Rightarrow> if is_space d then [c] # split_ws cs
                       else (case split_ws cs of [] \<Rightarrow> [[c]] | w # ws \<Rightarrow> (c # w) # ws)))"

text \<open>\<open>sub in s\<close> on strings is the contiguous-sublist test.\<close>

definition contains :: "pystr \<Rightarrow> pystr \<Rightarrow> bool" where
  "contains sub s \<longleftrightarrow> sublist sub s"

definition endswith :: "pystr \<Rightarrow> pystr \<Rightarrow> bool" where
  "endswith s suf \<longleftrightarrow> suffix suf s"

text \<open>\<open>int(s)\<close> on a string of decimal digits, and \<open>str(n)\<close>.\<close>

definition int_of_str :: "pystr \<Rightarrow> int" where
  "int_of_str s = foldl (\<lambda>a c. 10 * a + (int c - 48)) 0 s"

fun str_nat :: "nat \<Rightarrow> pystr" where
  "str_nat n = (if n < 10 then [48 + n] else str_nat (n div 10) @ [48 + n mod 10])"

declare str_nat.simps [simp del]

definition str_int :: "int \<Rightarrow> pystr" where
  "str_int i = (if i < 0 then 45 # str_nat (nat (- i)) else str_nat (nat i))"

section \<open>Regular expressions\<close>

text \<open>
  The \<open>re\<close> module is a backtracking matcher.  A pattern is run from a state (the
  character before the position, the remaining text, the groups captured so far) and
  gives the list of all the states in which it can end, in the order in which
  backtracking tries them: the head of the list is the match that \<open>re\<close> reports.
  Greedy operators list the longer alternative first.
\<close>

datatype cls = Ch nat | Rg nat nat | Dg | Sp | Wd

fun in_cls1 :: "cls \<Rightarrow> nat \<Rightarrow> bool" where
  "in_cls1 (Ch c) x = (x = c)"
| "in_cls1 (Rg a b) x = (a \<le> x \<and> x \<le> b)"
| "in_cls1 Dg x = is_decimal x"
| "in_cls1 Sp x = is_space x"
| "in_cls1 Wd x = is_word x"

definition in_cls :: "cls list \<Rightarrow> nat \<Rightarrow> bool" where
  "in_cls cs x = list_ex (\<lambda>c. in_cls1 c x) cs"

text \<open>
  Under \<open>(?i)\<close> a character matches a lower-case pattern character when its simple
  lower-case form does; dotless i and long s also match \<open>i\<close> and \<open>s\<close>.
\<close>

definition simple_lower :: "nat \<Rightarrow> nat" where
  "simple_lower c = (if c = 304 then 105 else (case lower_cp c of [] \<Rightarrow> c | l # _ \<Rightarrow> l))"

definition in_cls_i :: "cls list \<Rightarrow> nat \<Rightarrow> bool" where
  "in_cls_i cs x \<longleftrightarrow> in_cls cs x \<or> in_cls cs (simple_lower x)
     \<or> (x = 305 \<and> in_cls cs 105) \<or> (x = 383 \<and> in_cls cs 115)"

datatype regex =
    Eps
  | Cls "cls list"
  | ClsI "cls list"
  | Seq regex regex
  | Alt regex regex
  | Opt regex
  | Star regex
  | Grp nat regex
  | Bnd
  | Bol
  | Eol

type_synonym groups = "(nat \<times> pystr) list"
type_synonym mstate = "nat option \<times> pystr \<times> groups"

definition rest_of :: "mstate \<Rightarrow> pystr" where
  "rest_of s = fst (snd s)"

text \<open>
  \<open>r*\<close>: one more iteration first, then stop.  An iteration that consumes nothing is
  not repeated (no starred pattern of the source can match the empty string).
\<close>

function star :: "(mstate \<Rightarrow> mstate list) \<Rightarrow> mstate \<Rightarrow> mstate list" where
  "star f s =
     concat (map (\<lambda>s'. if length (rest_of s') < length (rest_of s) then star f s' else [])
                 (f s)) @ [s]"
  by pat_completeness auto
termination
  by (relation "measure (\<lambda>(f, s). length (rest_of s))") auto

declare star.simps [simp del]

definition word_before :: "nat option \<Rightarrow> bool" where
  "word_before p = (case p of None \<Rightarrow> False | Some c \<Rightarrow> is_word c)"

definition word_after :: "pystr \<Rightarrow> bool" where
  "word_after xs = (case xs of [] \<Rightarrow> False | c # _ \<Rightarrow> is_word c)"

primrec rmatch :: "regex \<Rightarrow> mstate \<Rightarrow> mstate list" where
  "rmatch Eps s = [s]"
| "rmatch (Cls cs) s =
     (case s of (p, xs, g) \<Rightarrow>
        (case xs of [] \<Rightarrow> [] | x # xs' \<Rightarrow> if in_cls cs x then [(Some x, xs', g)] else []))"
| "rmatch (ClsI cs) s =
     (case s of (p, xs, g) \<Rightarrow>
        (case xs of [] \<Rightarrow> [] | x # xs' \<Rightarrow> if in_cls_i cs x then [(Some x, xs', g)] else []))"
| "rmatch (Seq a b) s = concat (map (rmatch b) (rmatch a s))"
| "rmatch (Alt a b) s = rmatch a s @ rmatch b s"
| "rmatch (Opt a) s = rmatch a s @ [s]"
| "rmatch (Star a) s = star (rmatch a) s"
| "rmatch (Grp n a) s =
     (case s of (p, xs, g) \<Rightarrow>
        map (\<lambda>(p', xs', g'). (p', xs', (n, take (length xs - length xs') xs) # g'))
            (rmatch a s))"
| "rmatch Bnd s =
     (case s of (p, xs, g) \<Rightarrow> if word_before p \<noteq> word_after xs then [s] else [])"
| "rmatch Bol s = (case s of (p, xs, g) \<Rightarrow> if p = None then [s] else [])"
| "rmatch Eol s = (case s of (p, xs, g) \<Rightarrow> if xs = [] \<or> xs = [10] then [s] else [])"

text \<open>Pattern syntax: literals, sequences, alternatives and counted repetition.\<close>

fun lit :: "pystr \<Rightarrow> regex" where
  "lit [] = Eps"
| "lit [c] = Cls [Ch c]"
| "lit (c # cs) = Seq (Cls [Ch c]) (lit cs)"

fun lit_i :: "pystr \<Rightarrow> regex" where
  "lit_i [] = Eps"
| "lit_i [c] = ClsI [Ch c]"
| "lit_i (c # cs) = Seq (ClsI [Ch c]) (lit_i cs)"

fun seqs :: "regex list \<Rightarrow> regex" where
  "seqs [] = Eps"
| "seqs [r] = r"
| "seqs (r # rs) = Seq r (seqs rs)"

fun alts :: "regex list \<Rightarrow> regex" where
  "alts [] = Cls []"
| "alts [r] = r"
| "alts (r # rs) = Alt r (alts rs)"

definition many1 :: "regex \<Rightarrow> regex" where
  "many1 r = Seq r (Star r)"

primrec rep :: "nat \<Rightarrow> regex \<Rightarrow> regex" where
  "rep 0 r = Eps"
| "rep (Suc n) r = Seq r (rep n r)"

primrec rep_upto :: "nat \<Rightarrow> regex \<Rightarrow> regex" where
  "rep_upto 0 r = Eps"
| "rep_upto (Suc n) r = Opt (Seq r (rep_upto n r))"

definition rep_range :: "nat \<Rightarrow> nat \<Rightarrow> regex \<Rightarrow> regex" where
  "rep_range m n r = Seq (rep m r) (rep_upto (n - m) r)"

definition rep_min :: "nat \<Rightarrow> regex \<Rightarrow> regex" where
  "rep_min m r = Seq (rep m r) (Star r)"

definition rng :: "char \<Rightarrow> char \<Rightarrow> cls" where
  "rng a b = Rg (of_char a) (of_char b)"

definition chars :: "string \<Rightarrow> cls list" where
  "chars s = map (\<lambda>c. Ch (of_char c)) s"

text \<open>
  A match object: the matched text, the groups, and where the match ended (the
  character before the end and the text after it).
\<close>

type_synonym match = "pystr \<times> groups \<times> nat option \<times> pystr"

definition group0 :: "match \<Rightarrow> pystr" where
  "group0 m = fst m"

definition group :: "match \<Rightarrow> nat \<Rightarrow> pystr option" where
  "group m n = map_of (fst (snd m)) n"

definition mk_match :: "pystr \<Rightarrow> mstate \<Rightarrow> match" where
  "mk_match xs s =
     (case s of (p', xs', g) \<Rightarrow> (take (length xs - length xs') xs, g, p', xs'))"

definition re_match :: "regex \<Rightarrow> pystr \<Rightarrow> match option" where
  "re_match r t = (case rmatch r (None, t, []) of [] \<Rightarrow> None | s # _ \<Rightarrow> Some (mk_match t s))"

fun search_from :: "regex \<Rightarrow> nat option \<Rightarrow> pystr \<Rightarrow> match option" where
  "search_from r p [] =
     (case rmatch r (p, [], []) of [] \<Rightarrow> None | s # _ \<Rightarrow> Some (mk_match [] s))"
| "search_from r p (x # xs) =
     (case rmatch r (p, x # xs, []) of
        [] \<Rightarrow> search_from r (Some x) xs
      | s # _ \<Rightarrow> Some (mk_match (x # xs) s))"

definition re_search :: "regex \<Rightarrow> pystr \<Rightarrow> match option" where
  "re_search r t = search_from r None t"

text \<open>
  \<open>re.finditer\<close>: the next search starts where the last match ended.  (After an empty
  match the scan moves on by one character; no pattern of the source that is used
  with \<open>finditer\<close> or \<open>findall\<close> can match the empty string.)
\<close>

function find_from :: "regex \<Rightarrow> nat option \<Rightarrow> pystr \<Rightarrow> match list" where
  "find_from r p xs =
     (case search_from r p xs of
        None \<Rightarrow> []
      | Some m \<Rightarrow>
          (case m of (txt, g, p', xs') \<Rightarrow>
             m # (if length xs' < length xs then find_from r p' xs'
                  else (case xs' of
                          [] \<Rightarrow> []
                        | y # ys \<Rightarrow> if length ys < length xs then find_from r (Some y) ys
                                    else []))))"
  by pat_completeness auto
termination
  by (relation "measure (\<lambda>(r, p, xs). length xs)") auto

declare find_from.simps [simp del]

definition finditer :: "regex \<Rightarrow> pystr \<Rightarrow> match list" where
  "finditer r t = find_from r None t"

text \<open>\<open>re.findall\<close> for a pattern without groups, and for a pattern with one group.\<close>

definition findall :: "regex \<Rightarrow> pystr \<Rightarrow> pystr list" where
  "findall r t = map group0 (finditer r t)"

definition findall1 :: "regex \<Rightarrow> pystr \<Rightarrow> pystr list" where
  "findall1 r t = map (\<lambda>m. case group m 1 of None \<Rightarrow> [] | Some s \<Rightarrow> s) (finditer r t)"

section \<open>The profile and the environment\<close>

text \<open>
  \<open>parse_cv_metadata\<close> returns a dictionary with seven keys.  It reads two things that
  are not its argument: the clock (\<open>datetime.now()\<close>), and the iteration order of a
  \<open>set\<close> of strings (\<open>list(set(xs))\<close>), which Python leaves unspecified.  Both are made
  explicit in the environment.
\<close>

record profile =
  emails :: "pystr list"
  phones :: "pystr list"
  skills :: "pystr list"
  sections :: "pystr list"
  name :: pystr
  specialty :: pystr
  experience :: pystr

record env =
  now_year :: int
  now_month :: int
  set_list :: "pystr list \<Rightarrow> pystr list"


definition default_metadata :: profile where
  "default_metadata =
     \<lparr>emails = [], phones = [], skills = [], sections = [],
      name = u ''Inconnu'', specialty = [192] @ u '' d'' @ [233] @ u ''finir'',
      experience = u ''0''\<rparr>"

text \<open>\<open>not text or not text.strip() or "[ERREUR" in text\<close>\<close>

definition no_content :: "pystr \<Rightarrow> bool" where
  "no_content text \<longleftrightarrow> text = [] \<or> strip text = [] \<or> contains (u ''[ERREUR'') text"

section \<open>Contacts\<close>

definition dg :: regex where "dg = Cls [Dg]"
definition sp :: regex where "sp = Cls [Sp]"

text \<open>\<open>[a-zA-Z0-9._%+-]+@[a-zA-Z0-9.-]+\.[a-zA-Z]{2,}\<close>\<close>

definition email_pattern :: regex where
  "email_pattern =
     seqs [many1 (Cls ([rng CHR ''a'' CHR ''z'', rng CHR ''A'' CHR ''Z'', rng CHR ''0'' CHR ''9'']
                        @ chars ''._%+-'')),
           lit (u ''@''),
           many1 (Cls ([rng CHR ''a'' CHR ''z'', rng CHR ''A'' CHR ''Z'', rng CHR ''0'' CHR ''9'']
                        @ chars ''.-'')),
           lit (u ''.''),
           rep_min 2 (Cls [rng CHR ''a'' CHR ''z'', rng CHR ''A'' CHR ''Z''])]"

text \<open>
  \<open>(?:(?:\+|00)33|0)\s*[1-9](?:[\s.-]*\d{2}){4}\<close>, or
  \<open>(?:\+?\d{1,3}[-.\s]?)?\(?\d{2,4}\)?[-.\s]?\d{2,4}[-.\s]?\d{2,4}(?:[-.\s]?\d{2,4})?\<close>
\<close>

definition phone_sep :: regex where
  "phone_sep = Cls (chars ''-.'' @ [Sp])"

definition phone_pattern :: regex where
  "phone_pattern =
     Alt (seqs [Alt (Seq (Alt (lit (u ''+'')) (lit (u ''00''))) (lit (u ''33''))) (lit (u ''0'')),
                Star sp,
                Cls [rng CHR ''1'' CHR ''9''],
                rep 4 (Seq (Star (Cls (Sp # chars ''.-''))) (rep 2 dg))])
         (seqs [Opt (seqs [Opt (lit (u ''+'')), rep_range 1 3 dg, Opt phone_sep]),
                Opt (lit (u ''('')),
                rep_range 2 4 dg,
                Opt (lit (u '')'')),
                Opt phone_sep,
                rep_range 2 4 dg,
                Opt phone_sep,
                rep_range 2 4 dg,
                Opt (Seq (Opt phone_sep) (rep_range 2 4 dg))])"

text \<open>\<open>^\s*\d{4}\s*[-D]\s*\d{4}\s*$\<close>, where \<open>D\<close> stands for the en dash U+2013\<close>

definition year_range_pattern :: regex where
  "year_range_pattern =
     seqs [Bol, Star sp, rep 4 dg, Star sp, Cls [Ch 45, Ch 8211], Star sp, rep 4 dg,
           Star sp, Eol]"

text \<open>\<open>^\s*(19|20)\d{2}\s*$\<close>\<close>

definition year_pattern :: regex where
  "year_pattern =
     seqs [Bol, Star sp, Grp 1 (Alt (lit (u ''19'')) (lit (u ''20''))), rep 2 dg, Star sp, Eol]"

text \<open>\<open>^[\s]*[+0(]\<close>\<close>

definition phone_start_pattern :: regex where
  "phone_start_pattern = seqs [Bol, Star (Cls [Sp]), Cls (chars ''+0('')]"

text \<open>\<open>re.sub(r'\D', '', s)\<close> deletes every character that is not a digit.\<close>

definition digits_only :: "pystr \<Rightarrow> pystr" where
  "digits_only s = filter is_decimal s"

text \<open>The filter loop over the candidates; each \<open>continue\<close> drops the candidate.\<close>

fun filter_phones :: "pystr list \<Rightarrow> pystr list" where
  "filter_phones [] = []"
| "filter_phones (p # ps) =
     (let p_clean = strip p in
      if length (digits_only p_clean) < 8 then filter_phones ps
      else if re_match year_range_pattern p_clean \<noteq> None then filter_phones ps
      else if re_match year_pattern p_clean \<noteq> None then filter_phones ps
      else if re_match phone_start_pattern p_clean = None then filter_phones ps
      else p_clean # filter_phones ps)"

definition extract_emails :: "env \<Rightarrow> pystr \<Rightarrow> pystr list" where
  "extract_emails e text = set_list e (findall email_pattern text)"

definition extract_phones :: "env \<Rightarrow> pystr \<Rightarrow> pystr list" where
  "extract_phones e text = take 5 (set_list e (filter_phones (findall phone_pattern text)))"

section \<open>Skills\<close>

definition skill_keywords :: "pystr list" where
  "skill_keywords =
     [u ''Python'', u ''JavaScript'', u ''Java'', u ''C++'', u ''C#'', u ''PHP'',
      u ''Ruby'', u ''Swift'', u ''TypeScript'', u ''Go'', u ''Rust'', u ''Kotlin'',
      u ''SQL'', u ''React'', u ''Angular'', u ''Vue'', u ''Django'', u ''Flask'',
      u ''Docker'', u ''Kubernetes'', u ''AWS'', u ''Azure'', u ''GCP'', u ''Terraform'',
      u ''Ansible'']"

text \<open>\<open>r'\b' + re.escape(skill.lower()) + r'\b'\<close>: the escaped word is a literal.\<close>

definition skill_pattern :: "pystr \<Rightarrow> regex" where
  "skill_pattern skill = Seq Bnd (Seq (lit (lower skill)) Bnd)"

definition extract_skills :: "pystr \<Rightarrow> pystr list" where
  "extract_skills text_lower =
     filter (\<lambda>skill. re_search (skill_pattern skill) text_lower \<noteq> None) skill_keywords"

section \<open>Name\<close>

definition skip_words :: "pystr list" where
  "skip_words =
     [u ''experience'', u ''exp'' @ [233] @ u ''rience'', u ''formation'',
      u ''comp'' @ [233] @ u ''tence'', u ''contact'', u ''profil'', u ''adresse'',
      u ''email'', u ''tel'', u ''t'' @ [233] @ u ''l'' @ [233] @ u ''phone'', u ''www'',
      u ''http'', u ''@'', u ''cv'', u ''curriculum'', u ''ing'' @ [233] @ u ''nieur'',
      u ''d'' @ [233] @ u ''veloppeur'', u ''engineer'', u ''developer'', u ''manager'',
      u ''consultant'', u ''stage'', u ''poste'', u ''emploi'', u ''date'', u ''lieu'',
      u ''ville'', u ''pays'', u ''preparatory'', u ''pr'' @ [233] @ u ''paratoire'',
      u ''cycle'', u ''physic'', u ''chemistry'', u ''math'', u ''national'', u ''diploma'',
      u ''dipl'' @ [244] @ u ''me'', u ''bachelor'', u ''master'', u ''licence'',
      u ''school'', [233] @ u ''cole'', u ''university'', u ''universit'' @ [233],
      u ''institute'', u ''institut'', u ''education'', u ''overview'', u ''profile'',
      u ''summary'', u ''objective'', u ''computer'', u ''science'', u ''engineering'',
      u ''industrial'', u ''degree'', u ''sfax'', u ''tunis'', u ''tunisia'', u ''france'',
      u ''paris'', u ''lyon'']"

text \<open>\<open>lines = [l.strip() for l in text.split('\n') if l.strip()]\<close>\<close>

definition nonempty_lines :: "pystr \<Rightarrow> pystr list" where
  "nonempty_lines text = filter (\<lambda>l. l \<noteq> []) (map strip (split_on 10 text))"

text \<open>\<open>any(sw in s.lower() for sw in skip_words)\<close>\<close>

definition has_skip_word :: "pystr \<Rightarrow> bool" where
  "has_skip_word s = list_ex (\<lambda>sw. contains sw (lower s)) skip_words"

text \<open>\<open>w[0].isupper()\<close>, for the words \<open>w\<close> that are not empty.\<close>

definition starts_upper :: "pystr \<Rightarrow> bool" where
  "starts_upper w = (case w of [] \<Rightarrow> True | c # _ \<Rightarrow> isupper [c])"

text \<open>
  Heuristic 0, the tests on the part before the separator: 2 or 3 words, fewer than
  40 characters, no skip word, every word capitalised.
\<close>

definition name_part_ok :: "pystr \<Rightarrow> bool" where
  "name_part_ok name_part =
     (let name_words = split_ws name_part in
      2 \<le> length name_words \<and> length name_words \<le> 3 \<and> length name_part < 40
      \<and> \<not> has_skip_word name_part
      \<and> list_all starts_upper name_words)"

definition separators :: "nat list" where
  "separators = [124, 8211, 8212]"

definition name_part_of :: "nat \<Rightarrow> pystr \<Rightarrow> pystr" where
  "name_part_of sep line = strip (split_once sep line ! 0)"

definition title_part_of :: "nat \<Rightarrow> pystr \<Rightarrow> pystr" where
  "title_part_of sep line =
     (let parts = split_once sep line in if length parts > 1 then strip (parts ! 1) else [])"

text \<open>The loop over the separators for one line: the first separator that passes wins.\<close>

fun try_separators :: "nat list \<Rightarrow> pystr \<Rightarrow> (pystr \<times> pystr) option" where
  "try_separators [] line = None"
| "try_separators (sep # seps) line =
     (if sep \<in> set line \<and> name_part_ok (name_part_of sep line)
      then Some (name_part_of sep line, title_part_of sep line)
      else try_separators seps line)"

text \<open>The loop over the lines: index, name part and title part of the first success.\<close>

fun heuristic0 :: "(nat \<times> pystr) list \<Rightarrow> (nat \<times> pystr \<times> pystr) option" where
  "heuristic0 [] = None"
| "heuristic0 ((i, line) # rest) =
     (case try_separators separators line of
        Some (name_part, title_part) \<Rightarrow> Some (i, name_part, title_part)
      | None \<Rightarrow> heuristic0 rest)"

text \<open>
  The three line shapes of heuristic 1.  With \<open>U\<close> for \<open>A-Z\<close> and U+00C0..U+0178, and
  \<open>L\<close> for \<open>a-z\<close>, U+00E0..U+00FF and the hyphen, they are \<open>^w\s+w(?:\s+w)?$\<close> where
  the word \<open>w\<close> is \<open>[U][L]+\<close>, then \<open>[U\-]{2,}\<close>, then \<open>[UL]{2,}\<close>.
\<close>

definition cls_upper :: "cls list" where
  "cls_upper = [rng CHR ''A'' CHR ''Z'', Rg 192 376]"

definition cls_lower_dash :: "cls list" where
  "cls_lower_dash = [rng CHR ''a'' CHR ''z'', Rg 224 255, Ch 45]"

definition name_shape :: "regex \<Rightarrow> regex" where
  "name_shape w = seqs [Bol, w, many1 sp, w, Opt (Seq (many1 sp) w), Eol]"

definition title_case_pattern :: regex where
  "title_case_pattern = name_shape (Seq (Cls cls_upper) (many1 (Cls cls_lower_dash)))"

definition all_caps_pattern :: regex where
  "all_caps_pattern = name_shape (rep_min 2 (Cls (cls_upper @ [Ch 45])))"

definition mixed_pattern :: regex where
  "mixed_pattern =
     name_shape (rep_min 2 (Cls (cls_upper @ [rng CHR ''a'' CHR ''z'', Rg 224 255, Ch 45])))"

definition common_words :: "pystr list" where
  "common_words =
     [u ''les'', u ''des'', u ''pour'', u ''dans'', u ''avec'', u ''sur'', u ''par'',
      u ''une'', u ''the'', u ''and'', u ''for'']"

text \<open>\<open>' '.join(ws)\<close>\<close>

fun join_space :: "pystr list \<Rightarrow> pystr" where
  "join_space [] = []"
| "join_space [w] = w"
| "join_space (w # ws) = w @ [32] @ join_space ws"

text \<open>One line of heuristic 1: the name it yields, if any.\<close>

definition try_line :: "pystr \<Rightarrow> pystr option" where
  "try_line line =
     (let words = split_ws line in
      if 2 \<le> length words \<and> length words \<le> 3 \<and> length line < 50 then
        if has_skip_word line then None
        else if re_match title_case_pattern line \<noteq> None then Some line
        else if re_match all_caps_pattern line \<noteq> None then Some (title line)
        else if re_match mixed_pattern line \<noteq> None
                \<and> list_ex starts_upper words
                \<and> \<not> list_ex (\<lambda>w. lower w \<in> set common_words) words
          then Some (join_space
                      (map (\<lambda>w. if isupper w \<and> length w > 2 then capitalize w else w) words))
        else None
      else None)"

fun heuristic1 :: "(nat \<times> pystr) list \<Rightarrow> (nat \<times> pystr) option" where
  "heuristic1 [] = None"
| "heuristic1 ((i, line) # rest) =
     (case try_line line of Some n \<Rightarrow> Some (i, n) | None \<Rightarrow> heuristic1 rest)"

text \<open>
  The state after name detection: the profile, \<open>name_index\<close> (\<open>None\<close> for the source's
  \<open>-1\<close>) and \<open>found_spec\<close>.
\<close>

definition detect_name ::
    "pystr list \<Rightarrow> profile \<Rightarrow> profile \<times> nat option \<times> bool" where
  "detect_name lines metadata =
     (case heuristic0 (enumerate 0 (take 10 lines)) of
        Some (i, name_part, title_part) \<Rightarrow>
          if title_part \<noteq> [] \<and> length title_part > 3
          then (metadata\<lparr>name := name_part, specialty := title_part\<rparr>, Some i, True)
          else (metadata\<lparr>name := name_part\<rparr>, Some i, False)
      | None \<Rightarrow>
          (case heuristic1 (enumerate 0 (take 15 lines)) of
             Some (i, n) \<Rightarrow> (metadata\<lparr>name := n\<rparr>, Some i, False)
           | None \<Rightarrow> (metadata, None, False)))"

section \<open>Specialty\<close>

definition title_keywords :: "pystr list" where
  "title_keywords =
     [u ''ing'' @ [233] @ u ''nieur'', u ''d'' @ [233] @ u ''veloppeur'', u ''engineer'',
      u ''developer'', u ''analyst'', u ''manager'', u ''designer'', u ''consultant'',
      u ''architecte'', u ''technicien'', u ''expert'', u ''specialist'', u ''scientist'',
      u ''lead'', u ''directeur'', u ''data'', u ''devops'', u ''cloud'', u ''fullstack'',
      u ''full stack'', u ''backend'', u ''frontend'', u ''mobile'',
      u ''s'' @ [233] @ u ''curit'' @ [233], u ''security'', u ''r'' @ [233] @ u ''seau'',
      u ''network'', u ''syst'' @ [232] @ u ''me'', u ''system'', u ''admin'',
      u ''integration'', u ''int'' @ [233] @ u ''gration'', u ''bi '',
      u ''business intelligence'']"

definition specialties :: "pystr list" where
  "specialties =
     [u ''Data Integration Engineer'', u ''Machine Learning Engineer'',
      u ''Data Scientist'', u ''Data Analyst'', u ''Data Engineer'',
      u ''Business Intelligence'', u ''BI Developer'', u ''BI Analyst'',
      u ''Site Reliability Engineer'', u ''Full Stack Developer'',
      u ''Fullstack Developer'', u ''D'' @ [233] @ u ''veloppeur Fullstack'',
      u ''D'' @ [233] @ u ''veloppeur Full Stack'', u ''Ing'' @ [233] @ u ''nieur Data'',
      u ''Ing'' @ [233] @ u ''nieur Cloud'', u ''Ing'' @ [233] @ u ''nieur DevOps'',
      u ''Ing'' @ [233] @ u ''nieur Syst'' @ [232] @ u ''me'',
      u ''Ing'' @ [233] @ u ''nieur R'' @ [233] @ u ''seau'',
      u ''Ing'' @ [233] @ u ''nieur S'' @ [233] @ u ''curit'' @ [233],
      u ''Ing'' @ [233] @ u ''nieur Logiciel'', u ''Cloud Engineer'', u ''Cloud Architect'',
      u ''Security Engineer'', u ''D'' @ [233] @ u ''veloppeur Backend'',
      u ''Backend Developer'', u ''D'' @ [233] @ u ''veloppeur Frontend'',
      u ''Frontend Developer'', u ''D'' @ [233] @ u ''veloppeur Mobile'',
      u ''iOS Developer'', u ''Android Developer'', u ''Chef de projet'',
      u ''Project Manager'', u ''Product Manager'', u ''Scrum Master'', u ''UX Designer'',
      u ''UI Designer'', u ''UX/UI Designer'', u ''UX/UI'', u ''DevOps'', u ''SysOps'',
      u ''D'' @ [233] @ u ''veloppeur'', u ''Ing'' @ [233] @ u ''nieur'', u ''Designer'',
      u ''Consultant'', u ''Architecte'', u ''Manager'', u ''Analyste'',
      u ''Administrateur'', u ''Technicien'', u ''Commercial'', u ''Comptable'', u ''RH'',
      u ''Marketing'']"

text \<open>A candidate title line after the name.\<close>

definition is_title_line :: "pystr \<Rightarrow> bool" where
  "is_title_line potential_title \<longleftrightarrow>
     3 < length potential_title \<and> length potential_title < 80
     \<and> \<not> endswith potential_title (u ''.'')
     \<and> list_ex (\<lambda>kw. contains kw (lower potential_title)) title_keywords"

text \<open>
  Heuristic 1 reads \<open>lines[name_index + 1 : min(name_index + 4, len(lines))]\<close>;
  heuristic 2 searches the catalogue in the first 500 characters, then in the whole
  lower-cased text.
\<close>

definition detect_specialty ::
    "pystr list \<Rightarrow> pystr \<Rightarrow> nat option \<Rightarrow> bool \<Rightarrow> profile \<Rightarrow> profile" where
  "detect_specialty lines text_lower name_index found_spec metadata =
     (let (metadata, found_spec) =
            (case name_index of
               Some i \<Rightarrow>
                 if \<not> found_spec \<and> i + 1 < length lines then
                   (case find is_title_line (take 3 (drop (i + 1) lines)) of
                      Some t \<Rightarrow> (metadata\<lparr>specialty := t\<rparr>, True)
                    | None \<Rightarrow> (metadata, found_spec))
                 else (metadata, found_spec)
             | None \<Rightarrow> (metadata, found_spec))
      in if \<not> found_spec then
           (case find (\<lambda>spec. contains (lower spec) (take 500 text_lower)) specialties of
              Some spec \<Rightarrow> metadata\<lparr>specialty := spec\<rparr>
            | None \<Rightarrow>
                (case find (\<lambda>spec. contains (lower spec) text_lower) specialties of
                   Some spec \<Rightarrow> metadata\<lparr>specialty := spec\<rparr>
                 | None \<Rightarrow> metadata))
         else metadata)"

section \<open>Experience\<close>

definition e_acute :: regex where
  "e_acute = Cls [Ch 101, Ch 233]"

definition ans_ann :: regex where
  "ans_ann = Alt (lit (u ''ans'')) (lit (u ''ann''))"

definition years_yrs :: regex where
  "years_yrs = Alt (Seq (lit (u ''year'')) (Opt (lit (u ''s'')))) (lit (u ''yrs''))"

definition colon_sep :: regex where
  "colon_sep = Star (Cls [Ch 58, Sp, Ch 45])"

text \<open>
  The eight patterns, in the order of the source:
  \<^verbatim>\<open>(\d+)\s*(?:ans|ann'ees?)\s*d\'exp[e'e]rience\<close>,
  \<^verbatim>\<open>(\d+)\s*(?:ans|ann[e'e]es?)\s*exp\<close>,
  \<^verbatim>\<open>exp[e'e]rience\s*(?:professionnelle)?\s*[:\s-]*\s*(\d+)\s*(?:ans|ann)\<close>,
  \<^verbatim>\<open>plus\s*de\s*(\d+)\s*(?:ans|ann)\<close>,
  \<^verbatim>\<open>expertise\s*[:\s-]*\s*(\d+)\s*(?:ans|ann)\<close>,
  \<^verbatim>\<open>(\d+)\s*(?:years?|yrs)\s*(?:of\s*)?exp\<close>,
  \<^verbatim>\<open>(\d+)\s*(?:years?|yrs)\s*(?:of\s*)?experience\<close>,
  \<^verbatim>\<open>senior\s*\(\s*(\d+)\s*\+\s*ans\s*\)\<close>
  (\<open>'e\<close> stands for e-acute, U+00E9).
\<close>

definition exp_patterns :: "regex list" where
  "exp_patterns =
     [seqs [Grp 1 (many1 dg), Star sp,
            Alt (lit (u ''ans'')) (Seq (lit (u ''ann'' @ [233] @ u ''e'')) (Opt (lit (u ''s'')))),
            Star sp, lit (u ''d'' @ [39] @ u ''exp''), e_acute, lit (u ''rience'')],
      seqs [Grp 1 (many1 dg), Star sp,
            Alt (lit (u ''ans''))
                (seqs [lit (u ''ann''), e_acute, lit (u ''e''), Opt (lit (u ''s''))]),
            Star sp, lit (u ''exp'')],
      seqs [lit (u ''exp''), e_acute, lit (u ''rience''), Star sp,
            Opt (lit (u ''professionnelle'')), Star sp, colon_sep, Star sp,
            Grp 1 (many1 dg), Star sp, ans_ann],
      seqs [lit (u ''plus''), Star sp, lit (u ''de''), Star sp, Grp 1 (many1 dg), Star sp,
            ans_ann],
      seqs [lit (u ''expertise''), Star sp, colon_sep, Star sp, Grp 1 (many1 dg), Star sp,
            ans_ann],
      seqs [Grp 1 (many1 dg), Star sp, years_yrs, Star sp,
            Opt (Seq (lit (u ''of'')) (Star sp)), lit (u ''exp'')],
      seqs [Grp 1 (many1 dg), Star sp, years_yrs, Star sp,
            Opt (Seq (lit (u ''of'')) (Star sp)), lit (u ''experience'')],
      seqs [lit (u ''senior''), Star sp, lit (u ''(''), Star sp, Grp 1 (many1 dg), Star sp,
            lit (u ''+''), Star sp, lit (u ''ans''), Star sp, lit (u '')'')]]"

text \<open>
  \<open>match.group(1)\<close>.  Group 1 lies outside every optional part of the eight patterns,
  so a match always sets it; the empty string stands for Python's \<open>None\<close>.
\<close>

definition group1 :: "match \<Rightarrow> pystr" where
  "group1 m = (case group m 1 of None \<Rightarrow> [] | Some s \<Rightarrow> s)"

text \<open>
  \<open>for pattern in exp_patterns: match = re.search(pattern, text_lower);\<close>
  \<open>if match: metadata['experience'] = match.group(1); break\<close>
\<close>

fun exp_scan :: "regex list \<Rightarrow> pystr \<Rightarrow> profile \<Rightarrow> profile" where
  "exp_scan [] text_lower metadata = metadata"
| "exp_scan (pattern # rest) text_lower metadata =
     (case re_search pattern text_lower of
        Some m \<Rightarrow> metadata\<lparr>experience := group1 m\<rparr>
      | None \<Rightarrow> exp_scan rest text_lower metadata)"

definition months_map :: "(pystr \<times> int) list" where
  "months_map =
     [(u ''jan'', 1), (u ''f'' @ [233] @ u ''v'', 2), (u ''mar'', 3), (u ''avr'', 4),
      (u ''mai'', 5), (u ''jui'', 6), (u ''jul'', 7), (u ''ao'' @ [251], 8), (u ''sep'', 9),
      (u ''oct'', 10), (u ''nov'', 11), (u ''d'' @ [233] @ u ''c'', 12), (u ''feb'', 2),
      (u ''apr'', 4), (u ''jun'', 6), (u ''aug'', 8)]"

text \<open>\<open>months_map.get(s[:3] if s else '', 1)\<close>, where \<open>s\<close> may be \<open>None\<close>.\<close>

definition month_of :: "pystr option \<Rightarrow> int" where
  "month_of s =
     (case map_of months_map (case s of None \<Rightarrow> [] | Some t \<Rightarrow> take 3 t) of
        None \<Rightarrow> 1
      | Some k \<Rightarrow> k)"

definition academic_keywords :: "pystr list" where
  "academic_keywords =
     [u ''universit'' @ [233], u ''university'', u ''master'', u ''licence'',
      u ''bachelor'', u ''baccalaur'' @ [233] @ u ''at'', u ''bac '', u ''bac+'',
      u ''dipl'' @ [244] @ u ''me'', [233] @ u ''cole'', u ''school'', u ''formation'',
      [233] @ u ''tudiant'', u ''student'', u ''enseignement'', u ''degree'', u ''cursus'',
      u ''acad'' @ [233] @ u ''mique'', u ''education'', u ''msc '', u ''phd'',
      u ''doctorat'', u ''professeur'', u ''professor'', u ''enseignant'', u ''assistant'',
      u ''lecturer'', u ''stage'', u ''internship'', u ''trainee'', u ''apprenti'']"

text \<open>
  \<open>month_regex\<close>: the alternatives in the order of the source (\<open>[e'e]\<close> is
  \<open>e_acute\<close>, \<open>[u^u]\<close> is u or u-circumflex).
\<close>

definition fevr :: regex where
  "fevr = seqs [lit (u ''f''), e_acute, lit (u ''vr'')]"

definition dec :: regex where
  "dec = seqs [lit (u ''d''), e_acute, lit (u ''c'')]"

definition month_regex :: regex where
  "month_regex =
     alts [lit (u ''janvier''), Seq fevr (lit (u ''ier'')), lit (u ''mars''), lit (u ''avril''),
           lit (u ''mai''), lit (u ''juin''), lit (u ''juillet''),
           seqs [lit (u ''ao''), Cls [Ch 117, Ch 251], lit (u ''t'')],
           lit (u ''septembre''), lit (u ''octobre''), lit (u ''novembre''),
           Seq dec (lit (u ''embre'')),
           lit (u ''january''), lit (u ''february''), lit (u ''march''), lit (u ''april''),
           lit (u ''may''), lit (u ''june''), lit (u ''july''), lit (u ''august''),
           lit (u ''september''), lit (u ''october''), lit (u ''november''),
           lit (u ''december''),
           Seq (lit (u ''jan'')) (Opt (lit (u ''v''))),
           seqs [lit (u ''f''), e_acute, lit (u ''v''), Opt (lit (u ''r''))],
           lit (u ''mar''), lit (u ''apr''), lit (u ''jun''), lit (u ''jul''), lit (u ''aug''),
           lit (u ''sep''), lit (u ''oct''), lit (u ''nov''), dec]"

text \<open>\<open>\b(?:20[0-2]\d|19[7-9]\d)\b\<close>\<close>

definition year_regex :: regex where
  "year_regex =
     seqs [Bnd,
           Alt (seqs [lit (u ''20''), Cls [rng CHR ''0'' CHR ''2''], dg])
               (seqs [lit (u ''19''), Cls [rng CHR ''7'' CHR ''9''], dg]),
           Bnd]"

text \<open>\<open>(?:pr[e'e]sent|aujourd|maintenant|today|actuel|en cours|now)\<close>\<close>

definition present_regex :: regex where
  "present_regex =
     alts [seqs [lit (u ''pr''), e_acute, lit (u ''sent'')], lit (u ''aujourd''),
           lit (u ''maintenant''), lit (u ''today''), lit (u ''actuel''), lit (u ''en cours''),
           lit (u ''now'')]"

text \<open>
  \<open>(M)?\s*(Y)\s*[-DD'`au]t?o?\s*(P|(?:(M)?\s*(Y)))\<close> with \<open>M\<close>, \<open>Y\<close>, \<open>P\<close> the three
  patterns above; the separator class holds the hyphen, the dashes U+2013 and U+2014,
  a-grave, \<open>a\<close> and \<open>u\<close>.  The groups are numbered 1 to 5 from the left.
\<close>

definition range_pattern :: regex where
  "range_pattern =
     seqs [Opt (Grp 1 month_regex), Star sp, Grp 2 year_regex, Star sp,
           Cls [Ch 45, Ch 8211, Ch 8212, Ch 224, Ch 97, Ch 117],
           Opt (lit (u ''t'')), Opt (lit (u ''o'')), Star sp,
           Grp 3 (Alt present_regex
                      (seqs [Opt (Grp 4 month_regex), Star sp, Grp 5 year_regex]))]"

definition present_words :: "pystr list" where
  "present_words =
     [u ''present'', u ''aujourd'', u ''maintenant'', u ''today'', u ''actuel'',
      u ''en cours'', u ''now'']"

text \<open>\<open>str(x)\<close> of a group that may be \<open>None\<close>.\<close>

definition str_opt :: "pystr option \<Rightarrow> pystr" where
  "str_opt x = (case x of None \<Rightarrow> u ''None'' | Some s \<Rightarrow> s)"

text \<open>
  The body of \<open>for m in matches\<close>: one match of \<open>range_pattern\<close> appends at most one
  period.  Group 2 is outside every optional part, so \<open>y1_str\<close> is never \<open>None\<close>.
\<close>

definition add_period :: "env \<Rightarrow> match \<Rightarrow> (int \<times> int) list \<Rightarrow> (int \<times> int) list" where
  "add_period e m periods =
     (let m1_str = group m 1; y1_str = group m 2; end_part = group m 3;
          m2_str = group m 4; y2_str = group m 5;
          y1 = int_of_str (case y1_str of None \<Rightarrow> [] | Some s \<Rightarrow> s);
          m1 = month_of m1_str
      in case (if list_ex (\<lambda>p. contains p (str_opt end_part)) present_words
                 then Some (now_year e, now_month e)
               else (case y2_str of
                       None \<Rightarrow> None
                     | Some s \<Rightarrow> if s = [] then None else Some (int_of_str s, month_of m2_str)))
         of None \<Rightarrow> periods
          | Some (y2, m2) \<Rightarrow>
              (let duration = (y2 - y1) * 12 + (m2 - m1) in
               if 0 < duration \<and> duration < 480
               then periods @ [(y1 * 12 + m1, y2 * 12 + m2)]
               else periods))"

text \<open>
  \<open>context_text\<close>: the lower-cased lines \<open>max(0, i-3) .. i\<close>, each followed by a
  space (\<open>i - 3\<close> on natural numbers stops at 0).
\<close>

definition context_text :: "pystr list \<Rightarrow> nat \<Rightarrow> pystr" where
  "context_text lines i = concat (map (\<lambda>j. lower (lines ! j) @ u '' '') [i - 3 ..< i + 1])"

definition is_academic :: "pystr \<Rightarrow> bool" where
  "is_academic s = list_ex (\<lambda>kw. contains kw s) academic_keywords"

text \<open>Pass 1, the body of \<open>for i, line in enumerate(lines)\<close>.\<close>

definition pass1_step ::
    "env \<Rightarrow> pystr list \<Rightarrow> nat \<times> pystr \<Rightarrow> (int \<times> int) list \<Rightarrow> (int \<times> int) list" where
  "pass1_step e lines il periods =
     (case il of (i, line) \<Rightarrow>
        (let low_line = lower line in
         if is_academic (context_text lines i) then periods
         else fold (add_period e) (finditer range_pattern low_line) periods))"

definition collect_periods :: "env \<Rightarrow> pystr list \<Rightarrow> (int \<times> int) list" where
  "collect_periods e lines = fold (pass1_step e lines) (enumerate 0 lines) []"

text \<open>
  Pass 2, the body of \<open>for start, end in periods\<close> on the state
  \<open>(merged_months, curr_start, curr_end)\<close>, and the sum after the loop.
\<close>

definition merge_step :: "int \<times> int \<Rightarrow> int \<times> int \<times> int \<Rightarrow> int \<times> int \<times> int" where
  "merge_step p st =
     (case p of (start, end) \<Rightarrow>
      case st of (merged_months, curr_start, curr_end) \<Rightarrow>
        if curr_start = - 1 then (merged_months, start, end)
        else if start \<le> curr_end then (merged_months, curr_start, max curr_end end)
        else (merged_months + (curr_end - curr_start), start, end))"

definition merged_months :: "(int \<times> int) list \<Rightarrow> int" where
  "merged_months periods =
     (case fold merge_step periods (0, - 1, - 1) of
        (merged, curr_start, curr_end) \<Rightarrow> merged + (curr_end - curr_start))"

text \<open>
  \<open>round(a / b)\<close> for \<open>b > 0\<close>: to the nearest integer, a tie to the even one.  (The
  quotient is a float in the source; for the month counts at hand the float is exact
  enough that the rounding is that of the rational.)
\<close>

definition round_div :: "int \<Rightarrow> int \<Rightarrow> int" where
  "round_div a b =
     (let q = a div b; r = a mod b in
      if 2 * r < b then q else if 2 * r > b then q + 1 else if even q then q else q + 1)"

text \<open>Pass 3: the years on the lines that hold no academic keyword.\<close>

definition all_work_years :: "pystr list \<Rightarrow> int list" where
  "all_work_years lines =
     concat (map (\<lambda>line. let low_line = lower line in
                          if \<not> is_academic low_line
                          then map int_of_str (findall year_regex low_line)
                          else [])
                 lines)"

definition min_list :: "int list \<Rightarrow> int" where
  "min_list xs = (case xs of [] \<Rightarrow> 0 | y # ys \<Rightarrow> fold min ys y)"

text \<open>The block under \<open>if metadata['experience'] == '0'\<close>.\<close>

definition exp_dates :: "env \<Rightarrow> pystr \<Rightarrow> profile \<Rightarrow> profile" where
  "exp_dates e text metadata =
     (if experience metadata = u ''0'' then
        (let lines = split_on 10 text;
             periods = collect_periods e lines;
             metadata =
               (if periods \<noteq> []
                then metadata\<lparr>experience :=
                       str_int (max 1 (round_div (merged_months (sort periods)) 12))\<rparr>
                else metadata)
         in if experience metadata = u ''0'' then
              (let valid = filter (\<lambda>y. 1980 < y \<and> y \<le> now_year e) (all_work_years lines)
               in if valid \<noteq> []
                  then metadata\<lparr>experience := str_int (now_year e - min_list valid)\<rparr>
                  else metadata)
            else metadata)
      else metadata)"

section \<open>Sections\<close>

text \<open>
  The four heading patterns, all under \<open>(?i)\<close> and each one whole group:
  \<^verbatim>\<open>(exp[e'e]riences?\s*(?:professionnelles?)?)\<close>,
  \<^verbatim>\<open>(formations?\s*(?:acad[e'e]miques?|diplomes?)?)\<close>,
  \<^verbatim>\<open>(comp[e'e]tences?)\<close>,
  \<^verbatim>\<open>(education|academic|skills|languages|projets|hobbies|profil)\<close>.
\<close>

definition e_acute_i :: regex where
  "e_acute_i = ClsI [Ch 101, Ch 233]"

definition opt_s :: regex where
  "opt_s = Opt (lit_i (u ''s''))"

definition section_patterns :: "regex list" where
  "section_patterns =
     [Grp 1 (seqs [lit_i (u ''exp''), e_acute_i, lit_i (u ''rience''), opt_s, Star sp,
                   Opt (Seq (lit_i (u ''professionnelle'')) opt_s)]),
      Grp 1 (seqs [lit_i (u ''formation''), opt_s, Star sp,
                   Opt (Alt (seqs [lit_i (u ''acad''), e_acute_i, lit_i (u ''mique''), opt_s])
                            (Seq (lit_i (u ''diplome'')) opt_s))]),
      Grp 1 (seqs [lit_i (u ''comp''), e_acute_i, lit_i (u ''tence''), opt_s]),
      Grp 1 (alts [lit_i (u ''education''), lit_i (u ''academic''), lit_i (u ''skills''),
                   lit_i (u ''languages''), lit_i (u ''projets''), lit_i (u ''hobbies''),
                   lit_i (u ''profil'')])]"

text \<open>
  \<open>for pattern in section_patterns: matches = re.findall(pattern, text);\<close>
  \<open>if matches: metadata['sections'].append(matches[0].strip().title())\<close>
\<close>

definition found_sections :: "pystr \<Rightarrow> pystr list" where
  "found_sections text =
     concat (map (\<lambda>pattern. case findall1 pattern text of
                               [] \<Rightarrow> []
                             | val # _ \<Rightarrow> [title (strip val)])
                 section_patterns)"

section \<open>The extraction\<close>

definition parse_cv_metadata :: "env \<Rightarrow> pystr \<Rightarrow> profile" where
  "parse_cv_metadata e text =
     (let metadata = default_metadata in
      if no_content text then metadata
      else
        (let metadata = metadata\<lparr>emails := extract_emails e text\<rparr>;
             metadata = metadata\<lparr>phones := extract_phones e text\<rparr>;
             text_lower = lower text;
             metadata = metadata\<lparr>skills := extract_skills text_lower\<rparr>;
             lines = nonempty_lines text;
             (metadata, name_index, found_spec) = detect_name lines metadata;
             metadata = detect_specialty lines text_lower name_index found_spec metadata;
             metadata = exp_scan exp_patterns text_lower metadata;
             metadata = exp_scan exp_patterns text_lower metadata;
             metadata = exp_dates e text metadata;
             metadata = metadata\<lparr>sections := set_list e (found_sections text)\<rparr>
         in metadata))"

section \<open>Environments and variants used in the statements\<close>

text \<open>
  An environment for the examples: the clock at year \<open>y\<close>, month \<open>m\<close>, and sets listed
  in order of first occurrence.
\<close>

definition env_at :: "int \<Rightarrow> int \<Rightarrow> env" where
  "env_at y m = \<lparr>now_year = y, now_month = m, set_list = remdups\<rparr>"

text \<open>
  The extraction with the second, verbatim copy of the explicit-mention scan removed;
  everything else is as in \<open>parse_cv_metadata\<close>.
\<close>

definition parse_cv_metadata_once :: "env \<Rightarrow> pystr \<Rightarrow> profile" where
  "parse_cv_metadata_once e text =
     (let metadata = default_metadata in
      if no_content text then metadata
      else
        (let metadata = metadata\<lparr>emails := extract_emails e text\<rparr>;
             metadata = metadata\<lparr>phones := extract_phones e text\<rparr>;
             text_lower = lower text;
             metadata = metadata\<lparr>skills := extract_skills text_lower\<rparr>;
             lines = nonempty_lines text;
             (metadata, name_index, found_spec) = detect_name lines metadata;
             metadata = detect_specialty lines text_lower name_index found_spec metadata;
             metadata = exp_scan exp_patterns text_lower metadata;
             metadata = exp_dates e text metadata;
             metadata = metadata\<lparr>sections := set_list e (found_sections text)\<rparr>
         in metadata))"

section \<open>Each step touches its own fields\<close>

lemma exp_scan_fields [simp]:
  "emails (exp_scan ps low md) = emails md"
  "phones (exp_scan ps low md) = phones md"
  "skills (exp_scan ps low md) = skills md"
  "sections (exp_scan ps low md) = sections md"
  "name (exp_scan ps low md) = name md"
  "specialty (exp_scan ps low md) = specialty md"
  by (induction ps) (auto split: option.splits)

lemma exp_dates_fields [simp]:
  "emails (exp_dates e t md) = emails md"
  "phones (exp_dates e t md) = phones md"
  "skills (exp_dates e t md) = skills md"
  "sections (exp_dates e t md) = sections md"
  "name (exp_dates e t md) = name md"
  "specialty (exp_dates e t md) = specialty md"
  by (simp_all add: exp_dates_def Let_def)

lemma detect_specialty_fields [simp]:
  "emails (detect_specialty ls low ni fs md) = emails md"
  "phones (detect_specialty ls low ni fs md) = phones md"
  "skills (detect_specialty ls low ni fs md) = skills md"
  "sections (detect_specialty ls low ni fs md) = sections md"
  "name (detect_specialty ls low ni fs md) = name md"
  "experience (detect_specialty ls low ni fs md) = experience md"
  by (auto simp: detect_specialty_def Let_def split: option.splits prod.splits if_splits)

lemma detect_name_fields [simp]:
  "emails (fst (detect_name ls md)) = emails md"
  "phones (fst (detect_name ls md)) = phones md"
  "skills (fst (detect_name ls md)) = skills md"
  "sections (fst (detect_name ls md)) = sections md"
  "experience (fst (detect_name ls md)) = experience md"
  by (auto simp: detect_name_def split: option.splits prod.splits if_splits)

lemma exp_scan_idem: "exp_scan ps low (exp_scan ps low md) = exp_scan ps low md"
  by (induction ps arbitrary: md) (auto split: option.splits)

lemma exp_scan_experience_cong:
  "experience (exp_scan ps low md) = experience (exp_scan ps low (md'\<lparr>experience := experience md\<rparr>))"
  by (induction ps) (auto split: option.splits)

lemma exp_dates_experience_cong:
  "experience md = experience md' \<Longrightarrow>
   experience (exp_dates e t md) = experience (exp_dates e t md')"
  by (simp add: exp_dates_def Let_def)



lemma skills_parse:
  "skills (parse_cv_metadata e text) =
     (if no_content text then [] else extract_skills (lower text))"
  by (simp add: parse_cv_metadata_def Let_def split_def default_metadata_def)


lemma exp_scan_from_default:
  "experience md = u ''0'' \<Longrightarrow>
   experience (exp_scan ps low md) = experience (exp_scan ps low default_metadata)"
  using exp_scan_experience_cong[of ps low md default_metadata]
  by (simp add: default_metadata_def)

lemma experience_parse:
  "experience (parse_cv_metadata e text) =
     (if no_content text then u ''0''
      else experience (exp_dates e text (exp_scan exp_patterns (lower text) default_metadata)))"
proof (cases "no_content text")
  case True
  then show ?thesis by (simp add: parse_cv_metadata_def default_metadata_def)
next
  case False
  then show ?thesis
    apply (simp add: parse_cv_metadata_def Let_def split_def exp_scan_idem)
    apply (rule exp_dates_experience_cong)
    apply (rule exp_scan_from_default)
    apply (simp add: default_metadata_def)
    done
qed


section \<open>Properties\<close>

text \<open>
  Claim C1.  A text that is empty, empty after trimming whitespace, or that contains
  \<open>[ERREUR\<close> anywhere, yields the all-default profile: no e-mail, phone, skill or
  section, the default name and specialty, experience \<open>0\<close>.
\<close>

theorem default_on_empty_or_sentinel:
  "text = [] \<or> strip text = [] \<or> contains (u ''[ERREUR'') text \<Longrightarrow>
   parse_cv_metadata e text =
     \<lparr>emails = [], phones = [], skills = [], sections = [], name = u ''Inconnu'',
      specialty = [192] @ u '' d'' @ [233] @ u ''finir'', experience = u ''0''\<rparr>"
  by (simp add: parse_cv_metadata_def no_content_def default_metadata_def)

text \<open>
  Two such texts: an error message of the text extractor that itself holds an explicit
  experience mention, and a text of blanks, a newline and a tab.
\<close>

theorem default_on_empty_or_sentinel_witness:
  "contains (u ''[ERREUR'') (u ''[ERREUR TECHNIQUE: 5 ans exp]'')
   \<and> parse_cv_metadata (env_at 2025 6) (u ''[ERREUR TECHNIQUE: 5 ans exp]'') =
       \<lparr>emails = [], phones = [], skills = [], sections = [], name = u ''Inconnu'',
        specialty = [192] @ u '' d'' @ [233] @ u ''finir'', experience = u ''0''\<rparr>
   \<and> strip (u ''  '' @ [10, 9]) = []
   \<and> parse_cv_metadata (env_at 2025 6) (u ''  '' @ [10, 9]) =
       \<lparr>emails = [], phones = [], skills = [], sections = [], name = u ''Inconnu'',
        specialty = [192] @ u '' d'' @ [233] @ u ''finir'', experience = u ''0''\<rparr>"
proof -
  have a: "contains (u ''[ERREUR'') (u ''[ERREUR TECHNIQUE: 5 ans exp]'')" by code_simp
  have b: "strip (u ''  '' @ [10, 9]) = []" by code_simp
  show ?thesis
    using a b
      default_on_empty_or_sentinel[of "u ''[ERREUR TECHNIQUE: 5 ans exp]''" "env_at 2025 6"]
      default_on_empty_or_sentinel[of "u ''  '' @ [10, 9]" "env_at 2025 6"]
    by simp
qed

text \<open>
  Claim C9.  Running the ordered explicit-mention scan twice over the same lower-cased
  text leaves the profile that one run leaves, and the extraction as written equals the
  extraction with the duplicate block removed.
\<close>

theorem duplicate_scan_redundant:
  "exp_scan exp_patterns low (exp_scan exp_patterns low md) = exp_scan exp_patterns low md
   \<and> parse_cv_metadata e text = parse_cv_metadata_once e text"
  by (simp add: exp_scan_idem parse_cv_metadata_def parse_cv_metadata_once_def Let_def split_def)













lemma contains_concat_map:
  assumes "x \<in> set xs" and "contains kw (f x)"
  shows "contains kw (concat (map f xs))"
proof -
  from assms(1) obtain as bs where xs: "xs = as @ x # bs" by (auto dest: split_list)
  from assms(2) obtain ps ss where fx: "f x = ps @ kw @ ss"
    by (auto simp: contains_def sublist_def)
  have "concat (map f xs) = (concat (map f as) @ ps) @ kw @ (ss @ concat (map f bs))"
    by (simp add: xs fx)
  then show ?thesis unfolding contains_def sublist_def by blast
qed

lemma contains_append_right: "contains kw s \<Longrightarrow> contains kw (s @ t)"
  by (auto simp: contains_def sublist_def) (metis append.assoc)

lemma academic_context:
  assumes "j \<le> i" and "i \<le> j + 3" and "kw \<in> set academic_keywords"
    and "contains kw (lower (lines ! j))"
  shows "is_academic (context_text lines i)"
proof -
  have "j \<in> set [i - 3 ..< i + 1]" using assms(1,2) by auto
  moreover have "contains kw (lower (lines ! j) @ u '' '')"
    using assms(4) by (rule contains_append_right)
  ultimately have "contains kw (context_text lines i)"
    unfolding context_text_def by (rule contains_concat_map)
  with assms(3) show ?thesis unfolding is_academic_def list_ex_iff by (rule bexI[rotated])
qed

text \<open>
  Claim C3.  In the date-interval stage, if line \<open>i\<close> or one of the three lines before
  it (a line \<open>j\<close> with \<open>j \<le> i \<le> j + 3\<close>) contains an academic keyword once
  lower-cased, then iteration \<open>i\<close> of the loop leaves \<open>periods\<close> as it is, and the
  whole loop collects what it collects with iteration \<open>i\<close> left out.  The line
  \<open>Master degree, 2015-2020\<close> has the shape of a date range and contributes nothing.
\<close>

theorem academic_context_skips_line:
  assumes "i < length lines" and "j \<le> i" and "i \<le> j + 3"
    and "kw \<in> set academic_keywords" and "contains kw (lower (lines ! j))"
  shows "pass1_step e lines (i, lines ! i) periods = periods
       \<and> collect_periods e lines
           = fold (pass1_step e lines)
               (take i (enumerate 0 lines) @ drop (Suc i) (enumerate 0 lines)) []
       \<and> finditer range_pattern (lower (u ''Master degree, 2015-2020'')) \<noteq> []
       \<and> collect_periods e (split_on 10 (u ''Master degree, 2015-2020'')) = []"
proof -
  have step: "pass1_step e lines (i, lines ! i) ps = ps" for ps
    using academic_context[OF assms(2-5)] by (simp add: pass1_step_def)
  let ?E = "enumerate 0 lines"
  let ?F = "pass1_step e lines"
  have len: "i < length ?E" using assms(1) by simp
  have nth: "?E ! i = (i, lines ! i)" using assms(1) by (simp add: nth_enumerate_eq)
  have en: "?E = take i ?E @ (i, lines ! i) # drop (Suc i) ?E"
    using id_take_nth_drop[OF len] unfolding nth .
  have "fold ?F ?E [] = fold ?F (take i ?E @ (i, lines ! i) # drop (Suc i) ?E) []"
    by (rule arg_cong[where f = "\<lambda>xs. fold ?F xs []", OF en])
  also have "\<dots> = fold ?F (take i ?E @ drop (Suc i) ?E) []"
    by (simp add: step)
  finally have loop: "collect_periods e lines = fold ?F (take i ?E @ drop (Suc i) ?E) []"
    unfolding collect_periods_def .
  let ?l = "u ''Master degree, 2015-2020''"
  have shape: "finditer range_pattern (lower ?l) \<noteq> []" by code_simp
  have sp: "split_on 10 ?l = [?l]" by code_simp
  have kw: "u ''master'' \<in> set academic_keywords" by code_simp
  have c: "contains (u ''master'') (lower ([?l] ! 0))" by code_simp
  have "is_academic (context_text [?l] 0)"
    by (rule academic_context[OF _ _ kw c]) simp_all
  then have ex: "collect_periods e (split_on 10 ?l) = []"
    by (simp add: sp collect_periods_def pass1_step_def)
  from step loop shape ex show ?thesis by simp
qed

text \<open>
  An instance: a date range three lines below \<open>Master degree\<close> is skipped, and the
  same range alone is collected.
\<close>

theorem academic_context_skips_line_witness:
  "(3::nat) < length [u ''Master degree'', u ''Sfax'', [], u ''2015-2020'']
   \<and> (0::nat) \<le> 3 \<and> (3::nat) \<le> 0 + 3
   \<and> u ''master'' \<in> set academic_keywords
   \<and> contains (u ''master'') (lower ([u ''Master degree'', u ''Sfax'', [], u ''2015-2020''] ! 0))
   \<and> pass1_step (env_at 2025 6) [u ''Master degree'', u ''Sfax'', [], u ''2015-2020'']
        (3, [u ''Master degree'', u ''Sfax'', [], u ''2015-2020''] ! 3) [] = []
   \<and> collect_periods (env_at 2025 6) [u ''Master degree'', u ''Sfax'', [], u ''2015-2020''] = []
   \<and> collect_periods (env_at 2025 6) [u ''2015-2020''] = [(24181, 24241)]"
proof -
  let ?ls = "[u ''Master degree'', u ''Sfax'', [], u ''2015-2020'']"
  have a: "(3::nat) < length ?ls" by simp
  have k: "u ''master'' \<in> set academic_keywords" by code_simp
  have c: "contains (u ''master'') (lower (?ls ! 0))" by code_simp
  have w: "collect_periods (env_at 2025 6) ?ls = []" by code_simp
  have v: "collect_periods (env_at 2025 6) [u ''2015-2020''] = [(24181, 24241)]" by code_simp
  from academic_context_skips_line[OF a _ _ k c, of "env_at 2025 6" "[]"] a k c w v
  show ?thesis by simp
qed

text \<open>
  The date-interval stage and the clock: a date range whose end
  part holds no "present" word is turned into a period without reading the clock.
\<close>

lemma add_period_clock_free:
  "\<not> list_ex (\<lambda>p. contains p (str_opt (group m 3))) present_words \<Longrightarrow>
   add_period e m ps = add_period e' m ps"
  by (simp add: add_period_def Let_def)

lemma fold_add_period_clock_free:
  "\<forall>m\<in>set ms. \<not> list_ex (\<lambda>p. contains p (str_opt (group m 3))) present_words \<Longrightarrow>
   fold (add_period e) ms ps = fold (add_period e') ms ps"
proof (induction ms arbitrary: ps)
  case Nil
  show ?case by simp
next
  case (Cons m ms)
  then have "add_period e m ps = add_period e' m ps" by (simp add: add_period_clock_free)
  with Cons show ?case by simp
qed

lemma fold_pass1_clock_free:
  assumes "\<forall>x\<in>set xs. \<forall>m\<in>set (finditer range_pattern (lower (snd x))).
             \<not> list_ex (\<lambda>p. contains p (str_opt (group m 3))) present_words"
  shows "fold (pass1_step e lines) xs ps = fold (pass1_step e' lines) xs ps"
  using assms
proof (induction xs arbitrary: ps)
  case Nil
  show ?case by simp
next
  case (Cons x xs)
  obtain i line where x: "x = (i, line)" by (cases x)
  from Cons.prems x
  have "\<forall>m\<in>set (finditer range_pattern (lower line)).
          \<not> list_ex (\<lambda>p. contains p (str_opt (group m 3))) present_words"
    by simp
  then have "pass1_step e lines x ps = pass1_step e' lines x ps"
    by (simp add: x pass1_step_def fold_add_period_clock_free[of _ e _ e'])
  with Cons show ?case by simp
qed

text \<open>
  When no date range of the text ends in a "present" word, the collected periods do
  not depend on the clock.
\<close>

lemma collect_periods_clock_free:
  assumes "list_all (\<lambda>line. list_all
             (\<lambda>m. \<not> list_ex (\<lambda>p. contains p (str_opt (group m 3))) present_words)
             (finditer range_pattern (lower line))) lines"
  shows "collect_periods e lines = collect_periods e' lines"
proof -
  have "\<forall>x\<in>set (enumerate 0 lines). snd x \<in> set lines"
    by (auto simp: in_set_enumerate_eq)
  with assms
  have "\<forall>x\<in>set (enumerate 0 lines). \<forall>m\<in>set (finditer range_pattern (lower (snd x))).
          \<not> list_ex (\<lambda>p. contains p (str_opt (group m 3))) present_words"
    unfolding list_all_iff by blast
  then show ?thesis unfolding collect_periods_def by (rule fold_pass1_clock_free)
qed

lemma exp_dates_with_periods:
  assumes "experience md = u ''0''" and "collect_periods e (split_on 10 t) = ps"
    and "ps \<noteq> []" and "str_int (max 1 (round_div (merged_months (sort ps)) 12)) = v"
    and "v \<noteq> u ''0''"
  shows "experience (exp_dates e t md) = v"
  using assms by (simp add: exp_dates_def Let_def)

text \<open>
  Claim C2.  On the two lines \<open>Jan 2015 - Dec 2016\<close> and \<open>Jan 2016 - Dec 2018\<close> the
  stage works as the claim describes (sorted, merged since the second start is not
  after the first end, summed, divided by 12, rounded), but the result is \<open>3\<close>, not
  \<open>4\<close>: \<open>month_regex\<close> accepts \<open>dec\<close>, and \<open>months_map\<close> has the key
  \<open>d'ec\<close> with the accent only (beside \<open>feb\<close>, \<open>apr\<close>, \<open>jun\<close>, \<open>aug\<close>), so
  \<open>Dec\<close> falls back to month 1: the periods are January 2015 to January 2016 and
  January 2016 to January 2018, 36 months.  With the accent, the same two lines give
  the 47 months and the \<open>4\<close> of the claim.  This holds for every clock and set order.
\<close>

theorem dec_read_as_january:
  "collect_periods e (split_on 10 (u ''Jan 2015 - Dec 2016'' @ [10] @ u ''Jan 2016 - Dec 2018''))
     = [(24181, 24193), (24193, 24217)]
   \<and> experience (parse_cv_metadata e
        (u ''Jan 2015 - Dec 2016'' @ [10] @ u ''Jan 2016 - Dec 2018'')) = u ''3''
   \<and> experience (parse_cv_metadata e
        (u ''Jan 2015 - D'' @ [233] @ u ''c 2016'' @ [10] @ u ''Jan 2016 - D'' @ [233] @ u ''c 2018''))
       = u ''4''"
proof -
  let ?t = "u ''Jan 2015 - Dec 2016'' @ [10] @ u ''Jan 2016 - Dec 2018''"
  let ?s = "u ''Jan 2015 - D'' @ [233] @ u ''c 2016'' @ [10] @ u ''Jan 2016 - D'' @ [233] @ u ''c 2018''"
  have t0: "\<not> no_content ?t" by code_simp
  have t1: "experience (exp_scan exp_patterns (lower ?t) default_metadata) = u ''0''"
    by code_simp
  have t2: "list_all (\<lambda>line. list_all
             (\<lambda>m. \<not> list_ex (\<lambda>p. contains p (str_opt (group m 3))) present_words)
             (finditer range_pattern (lower line))) (split_on 10 ?t)"
    by code_simp
  have t3: "collect_periods (env_at 2025 6) (split_on 10 ?t) = [(24181, 24193), (24193, 24217)]"
    by code_simp
  have t4: "collect_periods e (split_on 10 ?t) = [(24181, 24193), (24193, 24217)]"
    using collect_periods_clock_free[OF t2, of e "env_at 2025 6"] t3 by simp
  have t5: "str_int (max 1 (round_div (merged_months (sort [(24181, 24193), (24193, 24217)])) 12))
            = u ''3''"
    by code_simp
  have t6: "u ''3'' \<noteq> u ''0''" by code_simp
  have t: "experience (parse_cv_metadata e ?t) = u ''3''"
    using exp_dates_with_periods[OF t1 t4 _ t5 t6] t0 by (simp add: experience_parse)
  have s0: "\<not> no_content ?s" by code_simp
  have s1: "experience (exp_scan exp_patterns (lower ?s) default_metadata) = u ''0''"
    by code_simp
  have s2: "list_all (\<lambda>line. list_all
             (\<lambda>m. \<not> list_ex (\<lambda>p. contains p (str_opt (group m 3))) present_words)
             (finditer range_pattern (lower line))) (split_on 10 ?s)"
    by code_simp
  have s3: "collect_periods (env_at 2025 6) (split_on 10 ?s) = [(24181, 24204), (24193, 24228)]"
    by code_simp
  have s4: "collect_periods e (split_on 10 ?s) = [(24181, 24204), (24193, 24228)]"
    using collect_periods_clock_free[OF s2, of e "env_at 2025 6"] s3 by simp
  have s5: "str_int (max 1 (round_div (merged_months (sort [(24181, 24204), (24193, 24228)])) 12))
            = u ''4''"
    by code_simp
  have s6: "u ''4'' \<noteq> u ''0''" by code_simp
  have s: "experience (parse_cv_metadata e ?s) = u ''4''"
    using exp_dates_with_periods[OF s1 s4 _ s5 s6] s0 by (simp add: experience_parse)
  from t4 t s show ?thesis by simp
qed










text \<open>
  The skill patterns.  A successful \<open>re.search\<close> matched at some position.
\<close>

lemma search_from_Some:
  "search_from r p xs = Some m \<Longrightarrow>
   \<exists>pre post. xs = pre @ post
     \<and> rmatch r (if pre = [] then p else Some (last pre), post, []) \<noteq> []"
proof (induction xs arbitrary: p)
  case Nil
  then have "rmatch r (p, [], []) \<noteq> []" by (auto split: list.splits)
  then show ?case by simp
next
  case (Cons x xs)
  show ?case
  proof (cases "rmatch r (p, x # xs, []) = []")
    case True
    with Cons.prems have "search_from r (Some x) xs = Some m" by simp
    from Cons.IH[OF this] obtain pre post where
      pp: "xs = pre @ post"
          "rmatch r (if pre = [] then Some x else Some (last pre), post, []) \<noteq> []"
      by blast
    have "x # xs = (x # pre) @ post" using pp(1) by simp
    moreover have "rmatch r (if x # pre = [] then p else Some (last (x # pre)), post, []) \<noteq> []"
      using pp(2) by (cases "pre = []") simp_all
    ultimately show ?thesis by blast
  next
    case False
    have "x # xs = [] @ (x # xs)" by simp
    moreover have "rmatch r (if ([]::nat list) = [] then p else Some (last []), x # xs, []) \<noteq> []"
      using False by simp
    ultimately show ?thesis by blast
  qed
qed

lemma rmatch_lit:
  "s' \<in> set (rmatch (lit w) (p, xs, g)) \<Longrightarrow>
   \<exists>rest. xs = w @ rest \<and> s' = (if w = [] then p else Some (last w), rest, g)"
proof (induction w arbitrary: p xs rule: lit.induct)
  case 1
  then show ?case by simp
next
  case (2 c)
  then show ?case by (auto simp: in_cls_def split: list.splits if_splits)
next
  case (3 c d cs)
  from "3.prems" obtain ys where ys: "xs = c # ys"
    "s' \<in> set (rmatch (lit (d # cs)) (Some c, ys, g))"
    by (auto simp: in_cls_def split: list.splits if_splits)
  from "3.IH"[OF ys(2)] ys(1) show ?case by auto
qed

text \<open>
  A match of \<open>\bw\b\<close> for a non-empty literal \<open>w\<close>: the text goes on with \<open>w\<close>, and there
  is a word boundary before it and after it.
\<close>

lemma skill_pattern_match:
  assumes "rmatch (Seq Bnd (Seq (lit w) Bnd)) (p, xs, []) \<noteq> []" and "w \<noteq> []"
  shows "\<exists>rest. xs = w @ rest \<and> word_before p \<noteq> word_after xs
           \<and> word_before (Some (last w)) \<noteq> word_after rest"
proof -
  from assms(1) have b: "word_before p \<noteq> word_after xs"
    by (auto split: if_splits)
  with assms(1) obtain s' where s': "s' \<in> set (rmatch (lit w) (p, xs, []))"
    "rmatch Bnd s' \<noteq> []"
    by (auto split: if_splits)
  from rmatch_lit[OF s'(1)] assms(2) obtain rest where
    r: "xs = w @ rest" "s' = (Some (last w), rest, [])" by auto
  from s'(2) r(2) have "word_before (Some (last w)) \<noteq> word_after rest"
    by (auto split: if_splits)
  with r(1) b show ?thesis by blast
qed

lemma found_skill_matches:
  assumes "sk \<in> set (skills (parse_cv_metadata e text))" and "lower sk \<noteq> []"
  shows "\<exists>pre post. lower text = pre @ lower sk @ post
           \<and> word_before (if pre = [] then None else Some (last pre))
               \<noteq> word_after (lower sk @ post)
           \<and> word_before (Some (last (lower sk))) \<noteq> word_after post"
proof -
  from assms(1) have "re_search (skill_pattern sk) (lower text) \<noteq> None"
    by (auto simp: skills_parse extract_skills_def split: if_splits)
  then obtain m where "search_from (skill_pattern sk) None (lower text) = Some m"
    by (auto simp: re_search_def)
  from search_from_Some[OF this] obtain pre post where
    pp: "lower text = pre @ post"
        "rmatch (skill_pattern sk) (if pre = [] then None else Some (last pre), post, []) \<noteq> []"
    by blast
  from skill_pattern_match[OF pp(2)[unfolded skill_pattern_def] assms(2)] obtain rest where
    r: "post = lower sk @ rest"
       "word_before (if pre = [] then None else Some (last pre)) \<noteq> word_after post"
       "word_before (Some (last (lower sk))) \<noteq> word_after rest"
    by blast
  have "lower text = pre @ lower sk @ rest" using pp(1) r(1) by simp
  with r(2)[unfolded r(1)] r(3) show ?thesis by blast
qed

lemma occurrence_iff:
  "(\<exists>pre post. s = pre @ w @ post \<and> P pre post) \<longleftrightarrow>
   list_ex (\<lambda>i. prefix w (drop i s) \<and> P (take i s) (drop (i + length w) s))
           [0..<Suc (length s)]"
proof
  assume "\<exists>pre post. s = pre @ w @ post \<and> P pre post"
  then obtain pre post where pp: "s = pre @ w @ post" "P pre post" by blast
  have "length pre \<in> set [0..<Suc (length s)]" using pp(1) by simp
  moreover have "prefix w (drop (length pre) s)" using pp(1) by simp
  moreover have "P (take (length pre) s) (drop (length pre + length w) s)"
    using pp by (simp add: drop_append)
  ultimately show "list_ex (\<lambda>i. prefix w (drop i s) \<and> P (take i s) (drop (i + length w) s))
           [0..<Suc (length s)]"
    unfolding list_ex_iff by blast
next
  assume "list_ex (\<lambda>i. prefix w (drop i s) \<and> P (take i s) (drop (i + length w) s))
           [0..<Suc (length s)]"
  then obtain i where i: "prefix w (drop i s)" "P (take i s) (drop (i + length w) s)"
    unfolding list_ex_iff by blast
  from i(1) obtain post where post: "drop i s = w @ post" by (auto simp: prefix_def)
  have "s = take i s @ w @ post" using post append_take_drop_id[of i s] by simp
  moreover have "drop (i + length w) s = post"
    using post by (metis add.commute append_eq_conv_conj drop_drop)
  ultimately show "\<exists>pre post. s = pre @ w @ post \<and> P pre post" using i(2) by blast
qed

text \<open>
  Claim C7.  If the lower-cased text contains \<open>javascript\<close> and has no standalone
  occurrence of \<open>java\<close> (an occurrence with no word character right before it and none
  right after it), then \<open>Java\<close> is not among the skills.
\<close>

theorem java_not_found_in_javascript:
  assumes "contains (u ''javascript'') (lower text)"
    and "\<not> (\<exists>pre post. lower text = pre @ u ''java'' @ post
               \<and> (pre = [] \<or> \<not> is_word (last pre)) \<and> (post = [] \<or> \<not> is_word (hd post)))"
  shows "u ''Java'' \<notin> set (skills (parse_cv_metadata e text))"
proof
  assume a: "u ''Java'' \<in> set (skills (parse_cv_metadata e text))"
  have l: "lower (u ''Java'') = u ''java''" by code_simp
  have n: "u ''java'' \<noteq> []" by code_simp
  have la: "is_word (last (u ''java''))" by code_simp
  have fi: "word_after (u ''java'' @ post)" for post
    by (simp add: u_def word_after_def is_word_def is_alnum_def)
  from found_skill_matches[OF a] l n obtain pre post where
    pp: "lower text = pre @ u ''java'' @ post"
        "word_before (if pre = [] then None else Some (last pre)) \<noteq> word_after (u ''java'' @ post)"
        "word_before (Some (last (u ''java''))) \<noteq> word_after post"
    by auto
  from pp(2) fi have "pre = [] \<or> \<not> is_word (last pre)"
    by (auto simp: word_before_def split: if_splits)
  moreover from pp(3) la have "post = [] \<or> \<not> is_word (hd post)"
    by (cases post) (auto simp: word_before_def word_after_def)
  ultimately show False using assms(2) pp(1) by blast
qed

text \<open>
  An instance: \<open>java\<close> occurs twice, inside \<open>JavaScript\<close> and before an underscore;
  the proof checks at every position that neither occurrence stands alone.
\<close>

theorem java_not_found_in_javascript_witness:
  "contains (u ''javascript'') (lower (u ''Expert JavaScript (Node), java_ee''))
   \<and> u ''Java'' \<notin> set (skills (parse_cv_metadata (env_at 2025 6)
                                  (u ''Expert JavaScript (Node), java_ee'')))"
proof -
  let ?t = "u ''Expert JavaScript (Node), java_ee''"
  have a: "contains (u ''javascript'') (lower ?t)" by code_simp
  let ?l = "u ''expert javascript (node), java_ee''"
  have l: "lower ?t = ?l" by code_simp
  have "\<not> list_ex (\<lambda>i. prefix (u ''java'') (drop i ?l)
            \<and> ((take i ?l = [] \<or> \<not> is_word (last (take i ?l)))
               \<and> (drop (i + length (u ''java'')) ?l = []
                  \<or> \<not> is_word (hd (drop (i + length (u ''java'')) ?l)))))
          [0..<Suc (length ?l)]"
    by code_simp
  then have b: "\<not> (\<exists>pre post. lower ?t = pre @ u ''java'' @ post
            \<and> (pre = [] \<or> \<not> is_word (last pre)) \<and> (post = [] \<or> \<not> is_word (hd post)))"
    unfolding l by (subst occurrence_iff)
  from java_not_found_in_javascript[OF a b, of "env_at 2025 6"] a show ?thesis by blast
qed

















end
